theory Spec2Isabelle
  imports Main "HOL-Library.Sublist" "HOL-Library.Log_Nat" "HOL-Library.AList"
begin

section \<open>Python values shared by both tools\<close>

text \<open>
  The exceptions the two scripts can raise by themselves. A run that ends in one of
  them is a run that ends in an unhandled error.
\<close>

datatype error =
    IndexError | NameError | ValueError | KeyError | TypeError | AttributeError | OSError
  | OverflowError

text \<open>\<^verbatim>\<open>str(n)\<close> for the integers that are pasted into path names.\<close>

definition digit_char :: "nat \<Rightarrow> char" where
  "digit_char d = char_of (48 + d)"

fun str_nat :: "nat \<Rightarrow> string" where
  "str_nat n = (if n < 10 then [digit_char n] else str_nat (n div 10) @ [digit_char (n mod 10)])"

declare str_nat.simps [simp del]

definition str_int :: "int \<Rightarrow> string" where
  "str_int i = (if i < 0 then CHR ''-'' # str_nat (nat (- i)) else str_nat (nat i))"


section \<open>BatchMergeTruthAndProcessed.py: correlation, throttled submission, clean-up\<close>

subsection \<open>Command line and derived names\<close>

text \<open>
  The command-line values the control flow depends on. \<open>save_ap\<close> is only bound when an
  eleventh argument is given (lines 40-41), hence the option. \<open>CurrentPath\<close> is the
  result of \<^verbatim>\<open>os.getcwd()\<close>. The text of the generated job script (lines 107-125) is
  not modelled, only the fact that it is written.
\<close>

record config =
  TruthCSVPath :: string
  ProcessedRootPath :: string
  OutputPath :: string
  RelativeSubmitPath :: string
  IfPublicNode :: int
  SubmitID :: int
  ArrayOutput :: int
  save_ap :: "string option"
  CurrentPath :: string

text \<open>Lines 47-49: the ceiling is 64 unless \<^verbatim>\<open>not IfPublicNode\<close>, that is unless it is 0.\<close>

definition MaxNumJob :: "config \<Rightarrow> int" where
  "MaxNumJob cfg = (if IfPublicNode cfg = 0 then 200 else 64)"

text \<open>Line 74.\<close>

definition TmpPath :: "config \<Rightarrow> string" where
  "TmpPath cfg = OutputPath cfg @ ''/TmpFolder_'' @ str_int (SubmitID cfg)"

text \<open>Lines 84-86. \<^verbatim>\<open>RelativeSubmitPath[0]\<close> raises on the empty string.\<close>

definition SubmitPath :: "config \<Rightarrow> nat \<Rightarrow> error + string" where
  "SubmitPath cfg j =
     (case RelativeSubmitPath cfg of
        [] \<Rightarrow> Inl IndexError
      | c # _ \<Rightarrow>
          Inr (if c = CHR ''/''
               then RelativeSubmitPath cfg @ ''/'' @ str_nat j @ ''_'' @ str_int (SubmitID cfg)
               else CurrentPath cfg @ ''/'' @ RelativeSubmitPath cfg @ ''/'' @ str_nat j
                      @ ''_'' @ str_int (SubmitID cfg)))"

text \<open>Lines 99-101.\<close>

definition TruthCSVFilename :: "config \<Rightarrow> string \<Rightarrow> string" where
  "TruthCSVFilename cfg ID_job = TruthCSVPath cfg @ ''/FakeWaveform_XENON1T_'' @ ID_job @ ''_truth.csv''"

definition TmpOutputFilename :: "config \<Rightarrow> string \<Rightarrow> string" where
  "TmpOutputFilename cfg ID_job = TmpPath cfg @ ''/FakeWaveform_XENON1T_'' @ ID_job @ ''_tmp.pkl''"


text \<open>The pattern handed to \<^verbatim>\<open>glob.glob\<close> on line 95.\<close>

definition processed_pattern :: "config \<Rightarrow> string \<Rightarrow> string" where
  "processed_pattern cfg ID_job = ProcessedRootPath cfg @ ''/FakeWaveform_XENON1T_'' @ ID_job @ ''*.root''"


subsection \<open>The identifier list (lines 66-71)\<close>

text \<open>
  \<^verbatim>\<open>s.split(sep)\<close> for a separator of several characters: the pieces between the
  occurrences of \<open>sep\<close>, found from left to right without overlap.
\<close>

function split_str :: "string \<Rightarrow> string \<Rightarrow> string list" where
  "split_str sep [] = [[]]"
| "split_str sep (c # cs) =
     (if sep \<noteq> [] \<and> prefix sep (c # cs)
      then [] # split_str sep (drop (length sep) (c # cs))
      else (case split_str sep cs of fld # flds \<Rightarrow> (c # fld) # flds | [] \<Rightarrow> [[c]]))"
  by pat_completeness auto
termination
  by (relation "measure (\<lambda>(sep, s). length s)") (auto simp: neq_Nil_conv)

declare split_str.simps [simp del]

text \<open>
  Line 70: the text between the first \<^verbatim>\<open>FakeWaveform_XENON1T_\<close> and the following
  \<^verbatim>\<open>_truth.csv\<close>. Index 1 is out of range when the file name does not contain the
  first marker.
\<close>

definition extract_ID :: "string \<Rightarrow> error + string" where
  "extract_ID filename =
     (case split_str ''FakeWaveform_XENON1T_'' filename of
        head # tail # others \<Rightarrow>
          (case split_str ''_truth.csv'' tail of ID # rest \<Rightarrow> Inr ID | [] \<Rightarrow> Inl IndexError)
      | _ \<Rightarrow> Inl IndexError)"

text \<open>Lines 68-71, for the list \<open>FileList\<close> that the glob of line 66 returned.\<close>

fun make_IDList :: "string list \<Rightarrow> error + string list" where
  "make_IDList [] = Inr []"
| "make_IDList (filename # rest) =
     (case extract_ID filename of
        Inl err \<Rightarrow> Inl err
      | Inr ID \<Rightarrow>
          (case make_IDList rest of Inl err \<Rightarrow> Inl err | Inr IDList \<Rightarrow> Inr (ID # IDList)))"


subsection \<open>The outside world: file system, shell commands, queue\<close>

text \<open>
  The script acts through shell commands and \<^verbatim>\<open>time.sleep\<close>. Each is an action; the
  run records them in order. \<open>Squeue\<close> stands for one occupancy query (lines 135-140: the
  \<^verbatim>\<open>squeue | wc -l\<close> pipeline that yields \<^verbatim>\<open>Output\<close> and the shell call that yields
  \<^verbatim>\<open>Status\<close>), \<open>Sbatch j\<close> for the \<^verbatim>\<open>sbatch\<close> of the submit file of job \<open>j\<close> (line 145),
  \<open>WriteSubmit\<close> for the \<^verbatim>\<open>echo ... >> SubmitFile\<close> lines.
\<close>

datatype action =
    RmR string | Mkdir string | Rm string | WriteSubmit string
  | Squeue | Sbatch nat | Sleep nat | RmRf string

text \<open>
  The file system is the set of path names that exist. \<^verbatim>\<open>rm -r d\<close> removes \<open>d\<close> and
  everything below it; the other commands are taken to succeed.
\<close>

definition under :: "string \<Rightarrow> string \<Rightarrow> bool" where
  "under d p = (p = d \<or> prefix (d @ ''/'') p)"

definition rm_r :: "string \<Rightarrow> string set \<Rightarrow> string set" where
  "rm_r d F = Set.filter (\<lambda>p. \<not> under d p) F"

fun effect :: "action \<Rightarrow> string set \<Rightarrow> string set" where
  "effect (RmR d) F = rm_r d F"
| "effect (RmRf d) F = rm_r d F"
| "effect (Mkdir d) F = insert d F"
| "effect (Rm p) F = F - {p}"
| "effect (WriteSubmit p) F = insert p F"
| "effect Squeue F = F"
| "effect (Sbatch j) F = F"
| "effect (Sleep n) F = F"

record world =
  fs :: "string set"
  trace :: "action list"

definition sh :: "action \<Rightarrow> world \<Rightarrow> world" where
  "sh a w = w\<lparr>fs := effect a (fs w), trace := trace w @ [a]\<rparr>"

text \<open>
  One answer of the queue: the exit status of the shell call (line 139) and the number
  printed by \<^verbatim>\<open>wc -l\<close> (line 140). The answers of a run are given as a list, consumed
  one per query; the list is finite, so a run whose answers never let the job through
  ends where the list ends, still polling.
\<close>

record poll =
  Status :: int
  Output :: int


subsection \<open>The polling loop (lines 128-150)\<close>

text \<open>One pass through the body of \<^verbatim>\<open>while IfSubmitted==0\<close>; the flag is \<open>IfSubmitted\<close>.\<close>

definition iteration :: "config \<Rightarrow> nat \<Rightarrow> string \<Rightarrow> poll \<Rightarrow> world \<Rightarrow> bool \<times> world" where
  "iteration cfg j SubmitFile p w =
     (let w1 = sh Squeue w in
      if Status p = 0 \<and> Output p < MaxNumJob cfg
      then (True, sh (Sleep 1) (sh (Rm SubmitFile) (sh (Sbatch j) w1)))
      else (False, sh (Sleep 30) w1))"

fun submit_loop :: "config \<Rightarrow> nat \<Rightarrow> string \<Rightarrow> poll list \<Rightarrow> world \<Rightarrow> bool \<times> poll list \<times> world" where
  "submit_loop cfg j SubmitFile [] w = (False, [], w)"
| "submit_loop cfg j SubmitFile (p # ps) w =
     (case iteration cfg j SubmitFile p w of
        (True, w') \<Rightarrow> (True, ps, w')
      | (False, w') \<Rightarrow> submit_loop cfg j SubmitFile ps w')"


subsection \<open>The submission loop (lines 82-150) and the whole script (lines 73-154)\<close>

text \<open>
  How a run ends: the script reached its last line, it raised, or the queue answers
  ran out while a job was still waiting (the loop of the source would go on polling).
\<close>

datatype outcome = Completed | Raised error | Polling

text \<open>
  The body of the \<^verbatim>\<open>for\<close> loop for job number \<open>j\<close> with identifier \<open>ID_job\<close>. \<open>glob\<close>
  is \<^verbatim>\<open>glob.glob\<close> on the processed side. The result \<open>None\<close> means: go on with
  the next identifier (the job was dispatched, or \<^verbatim>\<open>continue\<close> was taken).
  Line 122 reads \<open>save_ap\<close>, which is unbound when no eleventh argument was given.
\<close>

definition job_body ::
  "config \<Rightarrow> (string \<Rightarrow> string list) \<Rightarrow> nat \<Rightarrow> string \<Rightarrow> poll list \<Rightarrow> world
     \<Rightarrow> outcome option \<times> poll list \<times> world" where
  "job_body cfg glob j ID_job ps w =
     (case SubmitPath cfg j of
        Inl e \<Rightarrow> (Some (Raised e), ps, w)
      | Inr sp \<Rightarrow>
          (let w1 = (if sp \<in> fs w then sh (RmR sp) w else w);
               w2 = sh (Mkdir sp) w1;
               SubmitFile = sp @ ''/submit'';
               w3 = (if SubmitFile \<in> fs w2 then sh (Rm SubmitFile) w2 else w2)
           in case glob (processed_pattern cfg ID_job) of
                [] \<Rightarrow> (None, ps, w3)
              | ProcessedRootFilename # _ \<Rightarrow>
                  if length ProcessedRootFilename < 2 \<or> length (TruthCSVFilename cfg ID_job) < 2
                  then (None, ps, w3)
                  else (let w4 = sh (WriteSubmit SubmitFile) w3 in
                        if ArrayOutput cfg \<noteq> 0 \<and> save_ap cfg = None
                        then (Some (Raised NameError), ps, w4)
                        else (case submit_loop cfg j SubmitFile ps w4 of
                                (True, ps', w5) \<Rightarrow> (None, ps', w5)
                              | (False, ps', w5) \<Rightarrow> (Some Polling, ps', w5)))))"

fun submission ::
  "config \<Rightarrow> (string \<Rightarrow> string list) \<Rightarrow> (nat \<times> string) list \<Rightarrow> poll list \<Rightarrow> world
     \<Rightarrow> outcome \<times> poll list \<times> world" where
  "submission cfg glob [] ps w = (Completed, ps, w)"
| "submission cfg glob ((j, ID_job) # rest) ps w =
     (case job_body cfg glob j ID_job ps w of
        (None, ps', w') \<Rightarrow> submission cfg glob rest ps' w'
      | (Some oc, ps', w') \<Rightarrow> (oc, ps', w'))"

text \<open>Lines 75-77: the temporary directory is removed if it exists, then created.\<close>

definition create_tmp :: "config \<Rightarrow> world \<Rightarrow> world" where
  "create_tmp cfg w =
     sh (Mkdir (TmpPath cfg)) (if TmpPath cfg \<in> fs w then sh (RmR (TmpPath cfg)) w else w)"

text \<open>
  The script from line 73 on, for the identifier list \<open>IDList\<close> of lines 66-71, the queue
  answers \<open>ps\<close> and the initial file system \<open>F\<close>. Line 154 is reached only when the loop
  ends normally.
\<close>

definition batch_merge ::
  "config \<Rightarrow> (string \<Rightarrow> string list) \<Rightarrow> string list \<Rightarrow> poll list \<Rightarrow> string set
     \<Rightarrow> outcome \<times> poll list \<times> world" where
  "batch_merge cfg glob IDList ps F =
     (case submission cfg glob (enumerate 0 IDList) ps (create_tmp cfg \<lparr>fs = F, trace = []\<rparr>) of
        (Completed, ps', w) \<Rightarrow> (Completed, ps', sh (RmRf (TmpPath cfg)) w)
      | (oc, ps', w) \<Rightarrow> (oc, ps', w))"

text \<open>Lines 66-154: the identifier list is built first; a file name that raises ends the run.\<close>

definition script ::
  "config \<Rightarrow> (string \<Rightarrow> string list) \<Rightarrow> string list \<Rightarrow> poll list \<Rightarrow> string set
     \<Rightarrow> outcome \<times> poll list \<times> world" where
  "script cfg glob FileList ps F =
     (case make_IDList FileList of
        Inl err \<Rightarrow> (Raised err, ps, \<lparr>fs = F, trace = []\<rparr>)
      | Inr IDList \<Rightarrow> batch_merge cfg glob IDList ps F)"

text \<open>The job numbers handed to \<^verbatim>\<open>sbatch\<close>, in the order of the calls.\<close>

fun dispatched :: "action list \<Rightarrow> nat list" where
  "dispatched [] = []"
| "dispatched (Sbatch j # as) = j # dispatched as"
| "dispatched (a # as) = dispatched as"

text \<open>
  The identifiers for which the loop body gets past lines 96-104, each with its job
  number and the processed file it is paired with (the first one the glob returned).
\<close>

definition matched :: "config \<Rightarrow> (string \<Rightarrow> string list) \<Rightarrow> string \<Rightarrow> string option" where
  "matched cfg glob ID_job =
     (case glob (processed_pattern cfg ID_job) of
        [] \<Rightarrow> None
      | ProcessedRootFilename # _ \<Rightarrow>
          if length ProcessedRootFilename < 2 \<or> length (TruthCSVFilename cfg ID_job) < 2
          then None else Some ProcessedRootFilename)"

definition matched_jobs ::
  "config \<Rightarrow> (string \<Rightarrow> string list) \<Rightarrow> string list \<Rightarrow> (nat \<times> string \<times> string) list" where
  "matched_jobs cfg glob IDList =
     concat (map (\<lambda>(j, ID_job). case matched cfg glob ID_job of
                                   None \<Rightarrow> [] | Some f \<Rightarrow> [(j, ID_job, f)])
                 (enumerate 0 IDList))"

text \<open>The job numbers of the identifiers of a list that get past lines 96-104.\<close>

definition job_numbers :: "config \<Rightarrow> (string \<Rightarrow> string list) \<Rightarrow> (nat \<times> string) list \<Rightarrow> nat list" where
  "job_numbers cfg glob js = map fst (filter (\<lambda>(j, ID_job). matched cfg glob ID_job \<noteq> None) js)"

text \<open>
  \<^verbatim>\<open>glob.glob\<close> for a directory \<open>dir\<close> that holds the plain files \<open>names\<close> (in the order
  the directory lists them), for patterns that name this directory literally and whose
  only wildcard is \<^verbatim>\<open>*\<close>: the paths of the files that match. \<open>fnmatch name pat\<close> is
  \<^verbatim>\<open>fnmatch.fnmatch\<close> for such patterns.
\<close>

fun fnmatch :: "string \<Rightarrow> string \<Rightarrow> bool" where
  "fnmatch [] [] = True"
| "fnmatch (c # cs) [] = False"
| "fnmatch n (p # ps) =
     (if p = CHR ''*'' then list_ex (\<lambda>k. fnmatch (drop k n) ps) [0..<Suc (length n)]
      else (case n of [] \<Rightarrow> False | c # cs \<Rightarrow> c = p \<and> fnmatch cs ps))"

definition glob_dir :: "string \<Rightarrow> string list \<Rightarrow> string \<Rightarrow> string list" where
  "glob_dir dir names pat = filter (\<lambda>path. fnmatch path pat) (map (\<lambda>n. dir @ ''/'' @ n) names)"


section \<open>mc_postprocess.py: validation and merging of the job outputs\<close>

subsection \<open>The dag file\<close>

text \<open>
  A dag file as \<open>get_dag_information\<close> sees it: for each line, whether it starts with
  \<^verbatim>\<open>JOB\<close> and the number matched by \<^verbatim>\<open>events="(\d+)"\<close> if the pattern occurs; and the
  match of \<^verbatim>\<open>flavor="(.*?)"\<close> in the first 1024 characters, if any.
\<close>

record dag_line =
  startswith_JOB :: bool
  event_match :: "nat option"

record dag_file =
  dag_lines :: "dag_line list"
  flavor_match :: "string option"

text \<open>
  The function returns a tuple. On a missing file (line 31) the tuple has two
  components, on the normal path (line 43) three.
\<close>

datatype dag_info = Tuple2 nat nat | Tuple3 nat nat "string option"

fun scan_lines :: "dag_line list \<Rightarrow> nat \<Rightarrow> nat \<Rightarrow> nat \<times> nat" where
  "scan_lines [] jobs events = (jobs, events)"
| "scan_lines (l # ls) jobs events =
     scan_lines ls (if startswith_JOB l then jobs + 1 else jobs)
       (case event_match l of None \<Rightarrow> events | Some n \<Rightarrow> events + n)"

text \<open>\<open>None\<close> is a path for which \<^verbatim>\<open>os.path.isfile\<close> is false.\<close>

definition get_dag_information :: "dag_file option \<Rightarrow> dag_info" where
  "get_dag_information f =
     (case f of
        None \<Rightarrow> Tuple2 0 0
      | Some d \<Rightarrow> (case scan_lines (dag_lines d) 0 0 of
                    (jobs, events) \<Rightarrow> Tuple3 jobs events (flavor_match d)))"


subsection \<open>Strings and paths\<close>

text \<open>\<^verbatim>\<open>s.split(c)\<close> for a one-character separator, and \<^verbatim>\<open>sep.join(fields)\<close>.\<close>

fun split :: "char \<Rightarrow> string \<Rightarrow> string list" where
  "split sep [] = [[]]"
| "split sep (c # cs) =
     (if c = sep then [] # split sep cs
      else (case split sep cs of fld # flds \<Rightarrow> (c # fld) # flds | [] \<Rightarrow> [[c]]))"

fun join :: "string \<Rightarrow> string list \<Rightarrow> string" where
  "join sep [] = []"
| "join sep [x] = x"
| "join sep (x # y # ys) = x @ sep @ join sep (y # ys)"

text \<open>\<^verbatim>\<open>os.path.join\<close> of two components on a POSIX system.\<close>

definition path_join :: "string \<Rightarrow> string \<Rightarrow> string" where
  "path_join a b =
     (if prefix ''/'' b then b
      else if a = [] \<or> suffix ''/'' a then a @ b
      else a @ ''/'' @ b)"


subsection \<open>The environment of a run\<close>

text \<open>
  What the external commands and the file system answer. \<open>check_call\<close> is the result
  of running a command line: \<^verbatim>\<open>subprocess.check_call\<close> raises CalledProcessError on a
  non-zero exit status, which \<open>merge_files\<close> catches, and OSError when the program cannot
  be started, which it does not catch. \<open>entries file tree\<close> is \<^verbatim>\<open>GetEntries()\<close> of the
  named tree of a ROOT file; a reader that fails is outside the model.
\<close>

datatype call_outcome = ExitZero | ExitNonZero | NotStarted

datatype rename_outcome = Renamed | RenameIOError | RenameOSError

record env =
  dag :: "dag_file option"
  cur_dir :: string
  output_isdir :: bool
  listdir :: "string list"
  entries :: "string \<Rightarrow> string \<Rightarrow> int"
  result_dir_exists :: bool
  check_call :: "string list \<Rightarrow> call_outcome"
  isdir :: "string \<Rightarrow> bool"
  isfile :: "string \<Rightarrow> bool"
  rename :: "string \<Rightarrow> string \<Rightarrow> rename_outcome"

text \<open>What the tool writes to its standard streams.\<close>

datatype message =
    NotFound
  | NoEvents
  | NoJobs
  | OutputDirectoryNotPresent
  | FlavorUnknown "string option"
  | CountMismatch string nat nat
  | ProcessingError
  | Differs string int nat
  | CantCombine "string list"
  | NotPresent string
  | CouldntMerge string
  | MoveException
  | CantMerge string


subsection \<open>merge_files (lines 46-79)\<close>

text \<open>
  \<open>output_name\<close> is lines 54-56: the name of the first file without its fourth
  \<^verbatim>\<open>_\<close>-separated field; \<^verbatim>\<open>del fields[3]\<close> raises when there are fewer than four
  fields. \<open>merge_files\<close> gives the return value, or the exception that leaves the
  function, together with what was written to stderr; \<^verbatim>\<open>file_list[0]\<close> raises on the
  empty list.
\<close>

definition output_name :: "string \<Rightarrow> error + string" where
  "output_name sample_file =
     (let fields = split (CHR ''_'') sample_file in
      if length fields \<le> 3 then Inl IndexError
      else Inr (join ''_'' (take 3 fields @ drop 4 fields)))"

definition merge_files :: "env \<Rightarrow> string list \<Rightarrow> string \<Rightarrow> (error + bool) \<times> message list" where
  "merge_files e file_list result_dir =
     (case file_list of
        [] \<Rightarrow> (Inl IndexError, [])
      | sample_file # _ \<Rightarrow>
          (case output_name sample_file of
             Inl err \<Rightarrow> (Inl err, [])
           | Inr output_file \<Rightarrow>
               (case check_call e ([''hadd'', output_file] @ file_list) of
                  NotStarted \<Rightarrow> (Inl OSError, [])
                | ExitNonZero \<Rightarrow> (Inr False, [CantCombine file_list])
                | ExitZero \<Rightarrow>
                    if \<not> isdir e result_dir then (Inr False, [NotPresent result_dir])
                    else if \<not> isfile e output_file then (Inr False, [CouldntMerge output_file])
                    else (case rename e output_file (path_join result_dir output_file) of
                            Renamed \<Rightarrow> (Inr True, [])
                          | RenameIOError \<Rightarrow> (Inr False, [MoveException])
                          | RenameOSError \<Rightarrow> (Inr False, [MoveException])))))"


subsection \<open>The table of output groups\<close>

text \<open>
  \<open>root_files\<close> maps a group name to a tuple. Lines 101-110 and 117 store a pair
  \<^verbatim>\<open>([], suffix)\<close>; line 115 ends in a comma and so stores the one-element tuple
  \<^verbatim>\<open>(([], suffix),)\<close> that holds such a pair. The dictionary is a list of bindings in
  the order in which the keys were first inserted, which is the order in which Python
  (3.7 and later) iterates over it; the general theorems about the loops over the table
  hold for every order of the list.
\<close>

datatype group = Group "string list" string | Tup1 "string list" string

type_synonym root_files = "(string \<times> group) list"

definition MINITREE_OUTPUTS :: "(string \<times> string) list" where
  "MINITREE_OUTPUTS =
     [(''Basics'', ''Basics.root''),
      (''Fundamentals'', ''Fundamentals.root''),
      (''DoubleScatter'', ''DoubleScatter.root''),
      (''LargestPeakProperties'', ''LargestPeakProperties.root''),
      (''TotalProperties'', ''TotalProperties.root'')]"

text \<open>Lines 101-115. \<open>None\<close> is the return on an unknown flavor (line 113).\<close>

definition initial_root_files :: "string option \<Rightarrow> root_files option" where
  "initial_root_files flavor =
     (let root_files = [(''PAX ROOT'', Group [] ''pax.root'')] in
      if flavor = Some ''NEST''
      then Some (AList.update ''Geant ROOT'' (Tup1 [] ''NEST.root'')
                  (AList.update ''Patch ROOT'' (Group [] ''Patch.root'') root_files))
      else if flavor = Some ''G4''
      then Some (AList.update ''Geant ROOT'' (Tup1 [] ''G4.root'')
                  (AList.update ''Sort ROOT'' (Group [] ''Sort.root'') root_files))
      else if flavor = Some ''G4p10''
      then Some (AList.update ''Geant ROOT'' (Tup1 [] ''G4p10.root'')
                  (AList.update ''Sort ROOT'' (Group [] ''Sort.root'') root_files))
      else None)"

text \<open>
  Lines 116-117. Iterating over a dictionary yields its keys, so each step unpacks a key,
  a string, into the two names \<open>entry\<close> and \<open>suffix\<close> (here \<open>sfx\<close>); that succeeds only for a string of
  exactly two characters.
\<close>

fun unpack2 :: "string \<Rightarrow> error + string \<times> string" where
  "unpack2 [a, b] = Inr ([a], [b])"
| "unpack2 _ = Inl ValueError"

fun add_minitrees :: "string list \<Rightarrow> root_files \<Rightarrow> error + root_files" where
  "add_minitrees [] root_files = Inr root_files"
| "add_minitrees (k # ks) root_files =
     (case unpack2 k of
        Inl err \<Rightarrow> Inl err
      | Inr (entry, sfx) \<Rightarrow> add_minitrees ks (AList.update entry (Group [] sfx) root_files))"

text \<open>
  Lines 119-122. \<^verbatim>\<open>root_files[root_type][1]\<close> is the suffix of a pair and is out of
  range for a one-element tuple.
\<close>

fun classify :: "string \<Rightarrow> root_files \<Rightarrow> error + root_files" where
  "classify entry [] = Inr []"
| "classify entry ((root_type, Tup1 files sfx) # rest) = Inl IndexError"
| "classify entry ((root_type, Group files sfx) # rest) =
     (case classify entry rest of
        Inl err \<Rightarrow> Inl err
      | Inr rest' \<Rightarrow>
          Inr ((root_type, Group (if suffix sfx entry then files @ [entry] else files) sfx) # rest'))"

fun discover :: "string list \<Rightarrow> root_files \<Rightarrow> error + root_files" where
  "discover [] root_files = Inr root_files"
| "discover (entry # rest) root_files =
     (case classify entry root_files of
        Inl err \<Rightarrow> Inl err
      | Inr root_files' \<Rightarrow> discover rest root_files')"


subsection \<open>The file-count check (lines 124-131)\<close>

text \<open>
  \<^verbatim>\<open>len(root_files[entry][0])\<close>: the number of files of a pair; for the one-element
  tuple, component 0 is the pair itself, of length 2.
\<close>

fun file_count :: "group \<Rightarrow> nat" where
  "file_count (Group files sfx) = length files"
| "file_count (Tup1 files sfx) = 2"

text \<open>The first group whose count differs from \<open>jobs\<close>, if there is one.\<close>

fun check_counts :: "nat \<Rightarrow> root_files \<Rightarrow> (string \<times> nat) option" where
  "check_counts jobs [] = None"
| "check_counts jobs ((entry, g) # rest) =
     (if file_count g \<noteq> jobs then Some (entry, file_count g) else check_counts jobs rest)"



subsection \<open>The tolerance check (lines 10, 144, 155, 166)\<close>

text \<open>
  The comparison \<^verbatim>\<open>abs(events - total_events) > (EVENT_THRESHOLD * float(events))\<close> is
  computed in IEEE binary64. A finite positive double is a natural number below \<open>2^53\<close>
  times a power of two; \<open>round53\<close> rounds a natural number to the nearest one with 53
  significant bits, ties to even. \<open>floorlog 2 n\<close> is the number of bits of \<open>n\<close>.
\<close>

definition round53 :: "nat \<Rightarrow> nat" where
  "round53 n =
     (let b = floorlog 2 n in
      if b \<le> 53 then n
      else (let s = b - 53; q = n div 2 ^ s; r = n mod 2 ^ s; h = 2 ^ (s - 1)
            in (if r < h then q else if h < r then q + 1 else if even q then q else q + 1) * 2 ^ s))"

text \<open>\<^verbatim>\<open>float(n)\<close> for a natural number: correctly rounded, OverflowError beyond the range.\<close>

definition py_float :: "nat \<Rightarrow> error + nat" where
  "py_float n = (if round53 n < 2 ^ 1024 then Inr (round53 n) else Inl OverflowError)"

text \<open>
  The double written \<^verbatim>\<open>0.05\<close> is \<open>3602879701896397 / 2^56\<close>. For a double \<open>x\<close> that is a
  natural number, \<open>threshold56 x\<close> is \<open>2^56\<close> times the double \<^verbatim>\<open>EVENT_THRESHOLD * x\<close>:
  the exact product, rounded to 53 bits. Python compares an integer with a double by
  their exact values.
\<close>

definition threshold56 :: "nat \<Rightarrow> nat" where
  "threshold56 x = round53 (3602879701896397 * x)"

definition tolerance_exceeded :: "nat \<Rightarrow> int \<Rightarrow> error + bool" where
  "tolerance_exceeded events total_events =
     (case py_float events of
        Inl err \<Rightarrow> Inl err
      | Inr x \<Rightarrow> Inr (int (threshold56 x) < \<bar>int events - total_events\<bar> * 2 ^ 56))"

definition check_total :: "nat \<Rightarrow> string \<Rightarrow> int \<Rightarrow> error option \<times> message list" where
  "check_total events label total_events =
     (case tolerance_exceeded events total_events of
        Inl err \<Rightarrow> (Some err, [])
      | Inr True \<Rightarrow> (None, [Differs label total_events events])
      | Inr False \<Rightarrow> (None, []))"


subsection \<open>Counting the records of the groups (lines 133-171)\<close>

definition sum_entries :: "env \<Rightarrow> string \<Rightarrow> string list \<Rightarrow> int" where
  "sum_entries e tree files = sum_list (map (\<lambda>root_file. entries e root_file tree) files)"

text \<open>
  The inner loop runs over \<^verbatim>\<open>root_files[output][0]\<close>. For a pair these are the file
  names; for the one-element tuple the first item is a list, which \<^verbatim>\<open>TFile.Open\<close>
  rejects.
\<close>

definition count_group :: "env \<Rightarrow> nat \<Rightarrow> string \<Rightarrow> string \<Rightarrow> group \<Rightarrow> error option \<times> message list" where
  "count_group e events label tree g =
     (case g of
        Tup1 files sfx \<Rightarrow> (Some TypeError, [])
      | Group files sfx \<Rightarrow> check_total events label (sum_entries e tree files))"

text \<open>One step after another: the second runs only if the first did not raise.\<close>

definition seq :: "error option \<times> message list \<Rightarrow> error option \<times> message list \<Rightarrow> error option \<times> message list" where
  "seq a b = (case a of (Some err, msgs) \<Rightarrow> (Some err, msgs) | (None, msgs) \<Rightarrow> (fst b, msgs @ snd b))"

fun check_geant :: "env \<Rightarrow> nat \<Rightarrow> root_files \<Rightarrow> string list \<Rightarrow> error option \<times> message list" where
  "check_geant e events root_files [] = (None, [])"
| "check_geant e events root_files (output # rest) =
     (case map_of root_files output of
        None \<Rightarrow> check_geant e events root_files rest
      | Some g \<Rightarrow> seq (count_group e events output ''events'' g) (check_geant e events root_files rest))"

definition check_pax :: "env \<Rightarrow> nat \<Rightarrow> root_files \<Rightarrow> error option \<times> message list" where
  "check_pax e events root_files =
     (case map_of root_files ''PAX ROOT'' of
        None \<Rightarrow> (Some KeyError, [])
      | Some g \<Rightarrow> count_group e events ''PAX'' ''tree'' g)"

fun check_minitrees :: "env \<Rightarrow> nat \<Rightarrow> root_files \<Rightarrow> string list \<Rightarrow> error option \<times> message list" where
  "check_minitrees e events root_files [] = (None, [])"
| "check_minitrees e events root_files (output_type # rest) =
     (case map_of root_files output_type of
        None \<Rightarrow> (Some KeyError, [])
      | Some g \<Rightarrow> seq (count_group e events output_type output_type g)
                      (check_minitrees e events root_files rest))"

definition validate :: "env \<Rightarrow> nat \<Rightarrow> root_files \<Rightarrow> error option \<times> message list" where
  "validate e events root_files =
     seq (check_geant e events root_files [''Geant ROOT'', ''Sort ROOT'', ''Patch ROOT''])
       (seq (check_pax e events root_files)
          (check_minitrees e events root_files (map fst MINITREE_OUTPUTS)))"


subsection \<open>The merge loop (lines 175-178) and the function run_main\<close>

text \<open>
  A result of the tool: the value \<open>run_main\<close> returns (\<open>None\<close> when it falls off its end)
  or the exception that leaves it, the messages written, and the groups whose combined
  file was moved to the results directory.
\<close>

type_synonym result = "(error + int option) \<times> message list \<times> string list"

text \<open>
  \<open>merge_files\<close> is called with \<^verbatim>\<open>root_files[output_type][0]\<close>; for the one-element
  tuple its \<^verbatim>\<open>file_list[0]\<close> is a list, which has no \<^verbatim>\<open>split\<close>.
\<close>

fun merge_all :: "env \<Rightarrow> string \<Rightarrow> root_files \<Rightarrow> result" where
  "merge_all e result_dir [] = (Inr None, [], [])"
| "merge_all e result_dir ((output_type, Tup1 files sfx) # rest) = (Inl AttributeError, [], [])"
| "merge_all e result_dir ((output_type, Group files sfx) # rest) =
     (case merge_files e files result_dir of
        (Inl err, msgs) \<Rightarrow> (Inl err, msgs, [])
      | (Inr False, msgs) \<Rightarrow> (Inr (Some 1), msgs @ [CantMerge output_type], [])
      | (Inr True, msgs) \<Rightarrow>
          (case merge_all e result_dir rest of
             (r, msgs', merged) \<Rightarrow> (r, msgs @ msgs', output_type # merged)))"

text \<open>
  Lines 124-180, for the table \<open>root_files\<close> as it stands after the discovery loop.
  \<^verbatim>\<open>os.mkdir\<close> raises when the directory exists.
\<close>

definition after_discovery :: "env \<Rightarrow> nat \<Rightarrow> nat \<Rightarrow> root_files \<Rightarrow> result" where
  "after_discovery e jobs events root_files =
     (case check_counts jobs root_files of
        Some (entry, n) \<Rightarrow> (Inr (Some 1), [CountMismatch entry n jobs, ProcessingError], [])
      | None \<Rightarrow>
          (case validate e events root_files of
             (Some err, warnings) \<Rightarrow> (Inl err, warnings, [])
           | (None, warnings) \<Rightarrow>
               if result_dir_exists e then (Inl OSError, warnings, [])
               else (case merge_all e (path_join (cur_dir e) ''merged_results'') root_files of
                       (r, msgs, merged) \<Rightarrow> (r, warnings @ msgs, merged))))"

text \<open>
  Lines 82-180. Line 88 unpacks the tuple of \<open>get_dag_information\<close> into three names,
  which raises for a tuple of two.
\<close>

definition run_main :: "env \<Rightarrow> result" where
  "run_main e =
     (case get_dag_information (dag e) of
        Tuple2 jobs events \<Rightarrow> (Inl ValueError, [NotFound], [])
      | Tuple3 jobs events flavor \<Rightarrow>
          if events = 0 then (Inr (Some 1), [NoEvents], [])
          else if jobs = 0 then (Inr (Some 1), [NoJobs], [])
          else if \<not> output_isdir e then (Inr (Some 1), [OutputDirectoryNotPresent], [])
          else (case initial_root_files flavor of
                  None \<Rightarrow> (Inr (Some 1), [FlavorUnknown flavor], [])
                | Some root_files \<Rightarrow>
                    (case add_minitrees (map fst MINITREE_OUTPUTS) root_files of
                       Inl err \<Rightarrow> (Inl err, [], [])
                     | Inr root_files' \<Rightarrow>
                         (case discover (listdir e) root_files' of
                            Inl err \<Rightarrow> (Inl err, [], [])
                          | Inr root_files'' \<Rightarrow> after_discovery e jobs events root_files''))))"

text \<open>
  How the process ends (line 182, \<^verbatim>\<open>sys.exit(run_main())\<close>): with an exit status, or
  with the traceback of an exception nobody handled.
\<close>

datatype ending = Exit int | Unhandled error

definition sys_exit :: "error + int option \<Rightarrow> ending" where
  "sys_exit r = (case r of Inl err \<Rightarrow> Unhandled err | Inr None \<Rightarrow> Exit 0 | Inr (Some n) \<Rightarrow> Exit n)"



section \<open>Concrete inputs used to exercise the theorems\<close>

text \<open>
  A run of the batch script with three truth-side identifiers, of which two have a
  processed file, on the public partition, and queue answers that hold the first job
  back twice.
\<close>

definition example_config :: config where
  "example_config =
     \<lparr>TruthCSVPath = ''/data/truth'', ProcessedRootPath = ''/data/processed'',
      OutputPath = ''/data/out'', RelativeSubmitPath = ''Submit'', IfPublicNode = 1,
      SubmitID = 0, ArrayOutput = 0, save_ap = None, CurrentPath = ''/home/user''\<rparr>"

definition example_glob :: "string \<Rightarrow> string list" where
  "example_glob =
     glob_dir ''/data/processed''
       [''FakeWaveform_XENON1T_000001_pax.root'', ''FakeWaveform_XENON1T_000002_pax.root'']"

definition example_FileList :: "string list" where
  "example_FileList =
     [''/data/truth/FakeWaveform_XENON1T_000001_truth.csv'',
      ''/data/truth/FakeWaveform_XENON1T_000003_truth.csv'',
      ''/data/truth/FakeWaveform_XENON1T_000002_truth.csv'']"

definition example_IDList :: "string list" where
  "example_IDList = [''000001'', ''000003'', ''000002'']"

definition example_polls :: "poll list" where
  "example_polls =
     [\<lparr>Status = 0, Output = 70\<rparr>, \<lparr>Status = 1, Output = 3\<rparr>,
      \<lparr>Status = 0, Output = 10\<rparr>, \<lparr>Status = 0, Output = 11\<rparr>]"


text \<open>
  An environment of the post-processing tool in which every external step succeeds:
  the merge command exits with status zero, the results directory and the combined
  files exist, and the moves go through. \<open>failing_hadd\<close> is the same environment except
  that the merge command fails when it is to write \<open>run_0_G4_pax.root\<close>.
\<close>

definition example_env :: env where
  "example_env =
     \<lparr>dag = Some \<lparr>dag_lines = [\<lparr>startswith_JOB = True, event_match = Some 1000\<rparr>],
                   flavor_match = Some ''G4''\<rparr>,
      cur_dir = ''/work'', output_isdir = True, listdir = [],
      entries = (\<lambda>root_file tree. 900), result_dir_exists = False,
      check_call = (\<lambda>command_line. ExitZero), isdir = (\<lambda>d. True), isfile = (\<lambda>f. True),
      rename = (\<lambda>src dst. Renamed)\<rparr>"

definition failing_hadd :: env where
  "failing_hadd =
     example_env\<lparr>check_call :=
       (\<lambda>command_line. if take 2 command_line = [''hadd'', ''run_0_G4_pax.root'']
                        then ExitNonZero else ExitZero)\<rparr>"




section \<open>Properties of the submission throttle\<close>

lemma sh_simps: "fs (sh a w) = effect a (fs w)" "trace (sh a w) = trace w @ [a]"
  by (simp_all add: sh_def)

lemma dispatched_append: "dispatched (xs @ ys) = dispatched xs @ dispatched ys"
  by (induction xs rule: dispatched.induct) simp_all

lemma iteration_dispatched:
  "iteration cfg j sf p w = (b, w') \<Longrightarrow>
     dispatched (trace w') = dispatched (trace w) @ (if b then [j] else [])"
  by (auto simp: iteration_def Let_def sh_simps dispatched_append split: if_splits)

lemma submit_loop_dispatched:
  "submit_loop cfg j sf ps w = (b, ps', w') \<Longrightarrow>
     dispatched (trace w') = dispatched (trace w) @ (if b then [j] else [])"
proof (induction ps arbitrary: w)
  case Nil
  then show ?case by simp
next
  case (Cons p ps)
  obtain b1 w1 where it: "iteration cfg j sf p w = (b1, w1)"
    by (cases "iteration cfg j sf p w")
  show ?case
  proof (cases b1)
    case True
    with Cons.prems it show ?thesis using iteration_dispatched[OF it] by simp
  next
    case False
    with Cons.prems it have "submit_loop cfg j sf ps w1 = (b, ps', w')" by simp
    from Cons.IH[OF this] iteration_dispatched[OF it] False show ?thesis by simp
  qed
qed

text \<open>
  Claim C2. In the polling loop for a pending job, a queue answer lets the job go exactly
  when its status is zero and its count is strictly below the ceiling, which is 200 when
  \<open>IfPublicNode\<close> is 0 (the private class) and 64 otherwise (the public class, value 1;
  the value 2 of the secondary private partition has the ceiling 64 as well): then the
  job is submitted, the submit file removed, the script sleeps 1 and the loop ends. On
  every other answer nothing is submitted, the script sleeps 30 and the loop goes on
  with the next answer.
\<close>

theorem C2_dispatch_condition:
  "submit_loop cfg j sf (p # ps) w =
     (if Status p = 0 \<and> Output p < (if IfPublicNode cfg = 0 then 200 else 64)
      then (True, ps,
            w\<lparr>fs := fs w - {sf}, trace := trace w @ [Squeue, Sbatch j, Rm sf, Sleep 1]\<rparr>)
      else submit_loop cfg j sf ps (w\<lparr>trace := trace w @ [Squeue, Sleep 30]\<rparr>))"
  by (simp add: iteration_def MaxNumJob_def sh_def Let_def)

text \<open>
  Claim C8. With the ceiling at 64 and the successful queue answers 70, 70, 10, the loop
  for one job queries three times, sleeps 30 after each of the first two queries and
  submits the job after the third; no answer is left over.
\<close>

theorem C8_three_polls:
  "submit_loop (cfg\<lparr>IfPublicNode := 1\<rparr>) j sf
     [\<lparr>Status = 0, Output = 70\<rparr>, \<lparr>Status = 0, Output = 70\<rparr>, \<lparr>Status = 0, Output = 10\<rparr>]
     \<lparr>fs = F, trace = []\<rparr>
   = (True, [],
      \<lparr>fs = F - {sf},
       trace = [Squeue, Sleep 30, Squeue, Sleep 30, Squeue, Sbatch j, Rm sf, Sleep 1]\<rparr>)"
  by (simp add: iteration_def MaxNumJob_def sh_def Let_def)

lemma matched_jobs_numbers:
  "map fst (matched_jobs cfg glob IDList) = job_numbers cfg glob (enumerate 0 IDList)"
proof -
  have "map fst (concat (map (\<lambda>(j, ID_job). case matched cfg glob ID_job of
                                   None \<Rightarrow> [] | Some f \<Rightarrow> [(j, ID_job, f)]) js))
        = job_numbers cfg glob js" for js
    by (induction js) (auto simp: job_numbers_def split: option.splits)
  then show ?thesis by (simp add: matched_jobs_def)
qed

lemma job_body_dispatched:
  assumes "job_body cfg glob j ID_job ps w = (r, ps', w')"
  shows "dispatched (trace w') = dispatched (trace w) @
           (if r = None \<and> matched cfg glob ID_job \<noteq> None then [j] else [])"
    and "r \<noteq> Some Completed"
  using assms
  by (auto simp: job_body_def matched_def Let_def sh_simps dispatched_append
           split: sum.splits list.splits if_splits prod.splits bool.splits
           dest!: submit_loop_dispatched)

lemma submission_dispatched:
  "submission cfg glob js ps w = (oc, ps', w') \<Longrightarrow>
     \<exists>d. dispatched (trace w') = dispatched (trace w) @ d \<and>
         prefix d (job_numbers cfg glob js) \<and>
         (oc = Completed \<longrightarrow> d = job_numbers cfg glob js)"
proof (induction js arbitrary: ps w)
  case Nil
  then show ?case by (simp add: job_numbers_def)
next
  case (Cons a js)
  obtain j ID_job where a: "a = (j, ID_job)" by (cases a)
  obtain r ps1 w1 where jb: "job_body cfg glob j ID_job ps w = (r, ps1, w1)"
    by (cases "job_body cfg glob j ID_job ps w")
  note d1 = job_body_dispatched[OF jb]
  show ?case
  proof (cases r)
    case None
    with Cons.prems a jb have "submission cfg glob js ps1 w1 = (oc, ps', w')" by simp
    from Cons.IH[OF this] obtain d where d:
      "dispatched (trace w') = dispatched (trace w1) @ d"
      "prefix d (job_numbers cfg glob js)"
      "oc = Completed \<longrightarrow> d = job_numbers cfg glob js" by blast
    show ?thesis
    proof (cases "matched cfg glob ID_job")
      case None
      with d d1 \<open>r = None\<close> a show ?thesis by (auto simp: job_numbers_def)
    next
      case (Some f)
      with d d1 \<open>r = None\<close> a show ?thesis
        by (intro exI[of _ "j # d"]) (auto simp: job_numbers_def)
    qed
  next
    case (Some oc1)
    with Cons.prems a jb have "oc = oc1" "w' = w1" by simp_all
    with d1 Some show ?thesis by (intro exI[of _ "[]"]) auto
  qed
qed

lemma job_numbers_sorted: "sorted_wrt (<) (job_numbers cfg glob (enumerate n xs))"
proof -
  have "sorted_wrt (<) (map fst (enumerate n xs))"
    by (simp add: map_fst_enumerate)
  then have "sorted_wrt (\<lambda>x y. fst x < fst y) (enumerate n xs)"
    by (simp only: sorted_wrt_map)
  then have "sorted_wrt (\<lambda>x y. fst x < fst y)
               (filter (\<lambda>(j, ID_job). matched cfg glob ID_job \<noteq> None) (enumerate n xs))"
    by (rule sorted_wrt_filter)
  then show ?thesis
    by (simp add: job_numbers_def sorted_wrt_map)
qed

text \<open>
  Claim C3. For every identifier list, every glob and every list of queue answers, the
  job numbers handed to \<^verbatim>\<open>sbatch\<close> during the run, in the order of the calls, are an
  initial segment of the matched jobs in enumeration order, and that order is strictly
  increasing: a job is never submitted before an earlier matched job, and never twice.
  When the run completes, every matched job has been submitted.
\<close>

theorem C3_dispatch_in_order:
  "prefix (dispatched (trace (snd (snd (batch_merge cfg glob IDList ps F)))))
          (map fst (matched_jobs cfg glob IDList))
   \<and> sorted_wrt (<) (map fst (matched_jobs cfg glob IDList))
   \<and> (fst (batch_merge cfg glob IDList ps F) = Completed \<longrightarrow>
        dispatched (trace (snd (snd (batch_merge cfg glob IDList ps F))))
          = map fst (matched_jobs cfg glob IDList))"
proof -
  let ?w0 = "create_tmp cfg \<lparr>fs = F, trace = []\<rparr>"
  obtain oc ps' w where sub: "submission cfg glob (enumerate 0 IDList) ps ?w0 = (oc, ps', w)"
    by (cases "submission cfg glob (enumerate 0 IDList) ps ?w0")
  from submission_dispatched[OF sub] obtain d where d:
    "dispatched (trace w) = dispatched (trace ?w0) @ d"
    "prefix d (job_numbers cfg glob (enumerate 0 IDList))"
    "oc = Completed \<longrightarrow> d = job_numbers cfg glob (enumerate 0 IDList)" by blast
  have w0: "dispatched (trace ?w0) = []"
    by (simp add: create_tmp_def sh_simps)
  have bm: "fst (batch_merge cfg glob IDList ps F) = oc"
       "dispatched (trace (snd (snd (batch_merge cfg glob IDList ps F)))) = d"
    using sub d(1) w0
    by (auto simp: batch_merge_def sh_simps dispatched_append split: outcome.splits)
  show ?thesis
    using bm d(2,3) job_numbers_sorted[of cfg glob 0 IDList]
    by (simp add: matched_jobs_numbers)
qed

theorem C3_dispatch_in_order_witness:
  "fst (batch_merge example_config example_glob example_IDList example_polls {}) = Completed
   \<and> dispatched (trace (snd (snd
        (batch_merge example_config example_glob example_IDList example_polls {})))) = [0, 2]"
proof -
  have h: "fst (batch_merge example_config example_glob example_IDList example_polls {}) = Completed"
    by code_simp
  have m: "map fst (matched_jobs example_config example_glob example_IDList) = [0, 2]"
    by code_simp
  from C3_dispatch_in_order[of example_config example_glob example_IDList example_polls "{}"] h m
  show ?thesis by simp
qed



section \<open>Properties of the post-processing tool\<close>

subsection \<open>Early exits of run_main\<close>

text \<open>
  For each of the three known flavors the loop of line 116 raises on its first key:
  no key of \<open>MINITREE_OUTPUTS\<close> has exactly two characters. So \<open>run_main\<close> never gets
  to the discovery loop, and no run of the tool ends with exit status 0.
\<close>

lemma known_flavor_raises:
  "initial_root_files flavor = Some root_files \<Longrightarrow>
     add_minitrees (map fst MINITREE_OUTPUTS) root_files = Inl ValueError"
  by (simp add: MINITREE_OUTPUTS_def)

lemma run_main_endings:
  "sys_exit (fst (run_main e)) = Exit 1 \<or> sys_exit (fst (run_main e)) = Unhandled ValueError"
  by (auto simp: run_main_def sys_exit_def known_flavor_raises split: dag_info.splits option.splits)

text \<open>
  The structural exits that work: a dag file without events, one with events but without
  jobs, and a missing output directory each end the run with the return value 1.
\<close>

lemma run_main_structural_exits:
  assumes "dag e = Some d" and "scan_lines (dag_lines d) 0 0 = (jobs, events)"
  shows "events = 0 \<Longrightarrow> run_main e = (Inr (Some 1), [NoEvents], [])"
    and "events \<noteq> 0 \<Longrightarrow> jobs = 0 \<Longrightarrow> run_main e = (Inr (Some 1), [NoJobs], [])"
    and "events \<noteq> 0 \<Longrightarrow> jobs \<noteq> 0 \<Longrightarrow> \<not> output_isdir e \<Longrightarrow>
           run_main e = (Inr (Some 1), [OutputDirectoryNotPresent], [])"
  using assms by (simp_all add: run_main_def get_dag_information_def)

text \<open>
  Claim C7 says that a missing dag file ends the run with exit code 1 rather than with
  an unhandled error. The code does not do that: in every environment in which the dag
  file is missing, \<open>get_dag_information\<close> reports the file and returns a tuple of two,
  line 88 unpacks three, and the run ends with an unhandled ValueError.
\<close>

theorem C7_missing_dag_unhandled:
  "run_main (e\<lparr>dag := None\<rparr>) = (Inl ValueError, [NotFound], [])
   \<and> sys_exit (fst (run_main (e\<lparr>dag := None\<rparr>))) = Unhandled ValueError"
  by (simp add: run_main_def get_dag_information_def sys_exit_def)


subsection \<open>merge_files\<close>

text \<open>
  Claim C10. \<open>merge_files\<close> raises IndexError when the file list is empty and when the
  first file name has fewer than four \<^verbatim>\<open>_\<close>-separated fields. Whenever it returns
  False, the list was not empty, the output name could be built, and the merge command
  exited with a non-zero status, or it succeeded and the results directory is missing,
  the combined file is missing, or the move failed.
\<close>

theorem C10_merge_files_partial:
  "(file_list = [] \<longrightarrow> fst (merge_files e file_list result_dir) = Inl IndexError)
   \<and> (\<forall>sample_file rest.
         file_list = sample_file # rest \<and> length (split (CHR ''_'') sample_file) < 4
         \<longrightarrow> fst (merge_files e file_list result_dir) = Inl IndexError)
   \<and> (fst (merge_files e file_list result_dir) = Inr False \<longrightarrow>
        (\<exists>sample_file rest output_file.
            file_list = sample_file # rest \<and> output_name sample_file = Inr output_file \<and>
            (check_call e ([''hadd'', output_file] @ file_list) = ExitNonZero
             \<or> check_call e ([''hadd'', output_file] @ file_list) = ExitZero \<and>
                 (\<not> isdir e result_dir \<or> \<not> isfile e output_file
                  \<or> rename e output_file (path_join result_dir output_file) \<noteq> Renamed))))"
  by (auto simp: merge_files_def output_name_def Let_def
           split: list.splits sum.splits call_outcome.splits rename_outcome.splits if_splits)

theorem C10_merge_files_partial_witness:
  "fst (merge_files example_env [] ''/work/merged_results'') = Inl IndexError
   \<and> fst (merge_files example_env [''run_0_pax.root''] ''/work/merged_results'') = Inl IndexError
   \<and> fst (merge_files failing_hadd [''run_0_G4_000001_pax.root''] ''/work/merged_results'') = Inr False
   \<and> output_name ''run_0_G4_000001_pax.root'' = Inr ''run_0_G4_pax.root''
   \<and> check_call failing_hadd [''hadd'', ''run_0_G4_pax.root'', ''run_0_G4_000001_pax.root'']
       = ExitNonZero"
proof -
  have a: "length (split (CHR ''_'') ''run_0_pax.root'') < 4" by simp
  have b: "fst (merge_files failing_hadd [''run_0_G4_000001_pax.root''] ''/work/merged_results'')
           = Inr False"
    by (simp add: merge_files_def output_name_def failing_hadd_def example_env_def)
  have c: "output_name ''run_0_G4_000001_pax.root'' = Inr ''run_0_G4_pax.root''"
    by (simp add: output_name_def)
  have d: "check_call failing_hadd [''hadd'', ''run_0_G4_pax.root'', ''run_0_G4_000001_pax.root'']
           = ExitNonZero"
    by (simp add: failing_hadd_def example_env_def)
  from C10_merge_files_partial[of "[]" example_env "''/work/merged_results''"]
       C10_merge_files_partial[of "[''run_0_pax.root'']" example_env "''/work/merged_results''"]
       C10_merge_files_partial[of "[''run_0_G4_000001_pax.root'']" failing_hadd
                                  "''/work/merged_results''"]
       a b c d
  show ?thesis by simp
qed


subsection \<open>The file-count check\<close>






subsection \<open>The merge loop\<close>








subsection \<open>The tolerance check\<close>























section \<open>Properties of the correlator and of the clean-up\<close>

text \<open>The list of lines 66-71 for the example listing, and the script run on it.\<close>

lemma example_IDList_extracted: "make_IDList example_FileList = Inr example_IDList"
  by code_simp

lemma script_batch_merge:
  "make_IDList FileList = Inr IDList \<Longrightarrow> script cfg glob FileList ps F = batch_merge cfg glob IDList ps F"
  by (simp add: script_def)

lemma split_str_nonempty: "split_str sep s \<noteq> []"
  by (induction sep s rule: split_str.induct) (auto simp: split_str.simps split: list.splits)

text \<open>The selection of lines 95-104, identifier by identifier.\<close>

lemma TruthCSVFilename_long: "2 \<le> length (TruthCSVFilename cfg ID_job)"
  by (simp add: TruthCSVFilename_def)

lemma matched_Some_iff:
  "matched cfg glob ID_job = Some f \<longleftrightarrow>
     (\<exists>rest. glob (processed_pattern cfg ID_job) = f # rest) \<and> 2 \<le> length f"
  using TruthCSVFilename_long[of cfg ID_job]
  by (auto simp: matched_def split: list.splits)

lemma matched_jobs_set:
  "(j, ID_job, f) \<in> set (matched_jobs cfg glob IDList) \<longleftrightarrow>
     j < length IDList \<and> IDList ! j = ID_job \<and> matched cfg glob ID_job = Some f"
  by (auto simp: matched_jobs_def in_set_enumerate_eq split: option.splits)

lemma matched_jobs_ids:
  "map (\<lambda>(j, ID_job, f). ID_job)
       (concat (map (\<lambda>(j, ID_job). case matched cfg glob ID_job of
                                     None \<Rightarrow> [] | Some f \<Rightarrow> [(j, ID_job, f)]) js))
   = filter (\<lambda>ID_job. matched cfg glob ID_job \<noteq> None) (map snd js)"
  by (induction js) (auto split: option.splits)

lemma length_matched_jobs: "length (matched_jobs cfg glob IDList) \<le> length IDList"
proof -
  have "length (map (\<lambda>(j, ID_job, f). ID_job) (matched_jobs cfg glob IDList))
          \<le> length (map snd (enumerate 0 IDList))"
    unfolding matched_jobs_def matched_jobs_ids by (rule length_filter_le)
  then show ?thesis by simp
qed

lemma job_body_no_match:
  "RelativeSubmitPath cfg \<noteq> [] \<Longrightarrow> glob (processed_pattern cfg ID_job) = [] \<Longrightarrow>
     \<exists>w'. job_body cfg glob j ID_job ps w = (None, ps, w') \<and> dispatched (trace w') = dispatched (trace w)"
  by (auto simp: job_body_def SubmitPath_def Let_def sh_def dispatched_append split: list.splits)

text \<open>
  Claim C4, as amended. When every path the glob returns has at least two characters
  (a path that matches the pattern has), the identifiers that yield a job are exactly
  the identifiers of the truth-side list, in order, for which the glob on the processed
  side returns at least one path. There are at most as many jobs as truth-side
  identifiers. Each job carries the position of its identifier in the list and the
  first path the glob returned. An identifier without a processed-side match is passed
  over: the loop body goes on to the next identifier without using a queue answer and
  without a submission.
\<close>

theorem C4_correlator_result:
  "((\<forall>ID_job\<in>set IDList. \<forall>f\<in>set (glob (processed_pattern cfg ID_job)). 2 \<le> length f) \<longrightarrow>
      map (\<lambda>(j, ID_job, f). ID_job) (matched_jobs cfg glob IDList)
        = filter (\<lambda>ID_job. glob (processed_pattern cfg ID_job) \<noteq> []) IDList)
   \<and> length (matched_jobs cfg glob IDList) \<le> length IDList
   \<and> (\<forall>(j, ID_job, f)\<in>set (matched_jobs cfg glob IDList).
        j < length IDList \<and> IDList ! j = ID_job \<and>
        (\<exists>rest. glob (processed_pattern cfg ID_job) = f # rest))
   \<and> (RelativeSubmitPath cfg \<noteq> [] \<and> glob (processed_pattern cfg ID_job) = [] \<longrightarrow>
        (\<exists>w'. job_body cfg glob j ID_job ps w = (None, ps, w')
              \<and> dispatched (trace w') = dispatched (trace w)))"
proof (intro conjI impI)
  assume len: "\<forall>ID_job\<in>set IDList. \<forall>f\<in>set (glob (processed_pattern cfg ID_job)). 2 \<le> length f"
  have "matched cfg glob ID_job \<noteq> None \<longleftrightarrow> glob (processed_pattern cfg ID_job) \<noteq> []"
    if "ID_job \<in> set IDList" for ID_job
  proof (cases "glob (processed_pattern cfg ID_job)")
    case Nil
    then show ?thesis by (simp add: matched_def)
  next
    case (Cons f rest)
    with len that have "2 \<le> length f" by auto
    with Cons show ?thesis using matched_Some_iff[of cfg glob ID_job f] by auto
  qed
  then have "filter (\<lambda>ID_job. matched cfg glob ID_job \<noteq> None) IDList
           = filter (\<lambda>ID_job. glob (processed_pattern cfg ID_job) \<noteq> []) IDList"
    by (intro filter_cong) auto
  then show "map (\<lambda>(j, ID_job, f). ID_job) (matched_jobs cfg glob IDList)
        = filter (\<lambda>ID_job. glob (processed_pattern cfg ID_job) \<noteq> []) IDList"
    unfolding matched_jobs_def matched_jobs_ids by simp
next
  show "length (matched_jobs cfg glob IDList) \<le> length IDList"
    by (rule length_matched_jobs)
next
  show "\<forall>(j, ID_job, f)\<in>set (matched_jobs cfg glob IDList).
        j < length IDList \<and> IDList ! j = ID_job \<and>
        (\<exists>rest. glob (processed_pattern cfg ID_job) = f # rest)"
    using matched_Some_iff[of cfg glob] by (auto simp: matched_jobs_set)
next
  assume "RelativeSubmitPath cfg \<noteq> [] \<and> glob (processed_pattern cfg ID_job) = []"
  then show "\<exists>w'. job_body cfg glob j ID_job ps w = (None, ps, w')
              \<and> dispatched (trace w') = dispatched (trace w)"
    using job_body_no_match by blast
qed

text \<open>
  Claim C4 as stated fails in its bound by the processed side. The pattern of line 95
  lets any text follow the identifier, so with the truth-side identifiers 1 and 10 and
  the single processed file of identifier 10, both identifiers find that file and two
  jobs are generated, more than there are processed files.
\<close>

theorem C4_more_jobs_than_processed_files:
  "\<not> length (matched_jobs example_config
                (glob_dir ''/data/processed'' [''FakeWaveform_XENON1T_10_pax.root''])
                [''1'', ''10''])
       \<le> min (length [''1'', ''10'']) (length [''FakeWaveform_XENON1T_10_pax.root''])"
  by code_simp

theorem C4_correlator_result_witness:
  "map (\<lambda>(j, ID_job, f). ID_job) (matched_jobs example_config example_glob example_IDList)
     = [''000001'', ''000002'']
   \<and> matched_jobs example_config example_glob example_IDList
     = [(0, ''000001'', ''/data/processed/FakeWaveform_XENON1T_000001_pax.root''),
        (2, ''000002'', ''/data/processed/FakeWaveform_XENON1T_000002_pax.root'')]
   \<and> fst (job_body example_config example_glob 1 ''000003'' example_polls \<lparr>fs = {}, trace = []\<rparr>) = None"
proof -
  have h: "\<forall>ID_job\<in>set example_IDList.
             \<forall>f\<in>set (example_glob (processed_pattern example_config ID_job)). 2 \<le> length f"
    by code_simp
  have f: "filter (\<lambda>ID_job. example_glob (processed_pattern example_config ID_job) \<noteq> []) example_IDList
           = [''000001'', ''000002'']"
    by code_simp
  have m: "matched_jobs example_config example_glob example_IDList
     = [(0, ''000001'', ''/data/processed/FakeWaveform_XENON1T_000001_pax.root''),
        (2, ''000002'', ''/data/processed/FakeWaveform_XENON1T_000002_pax.root'')]"
    by code_simp
  have r: "RelativeSubmitPath example_config \<noteq> []
           \<and> example_glob (processed_pattern example_config ''000003'') = []"
    by code_simp
  from C4_correlator_result[of example_IDList example_glob example_config "''000003''" 1 example_polls
             "\<lparr>fs = {}, trace = []\<rparr>"] h f m r
  show ?thesis by auto
qed

text \<open>
  The temporary outputs of the jobs lie below the temporary directory, the final
  outputs do not. No command of the submission loop is the forced recursive removal
  of line 154.
\<close>

lemma tmp_output_under_tmp: "under (TmpPath cfg) (TmpOutputFilename cfg ID_job)"
  by (simp add: under_def TmpOutputFilename_def)










end
